theory Spec2Isabelle
  imports Main "HOL-Library.Word"
begin

section \<open>Errors, reasons and wire constants\<close>

type_synonym byte = "8 word"

text \<open>
  A Go \<^verbatim>\<open>error\<close> value. \<open>Opaque\<close> is an error produced outside the engine (by the
  transport or by a collaborator, for instance \<^verbatim>\<open>io.EOF\<close>); \<open>Errorf fmt args\<close> is the value
  of \<^verbatim>\<open>fmt.Errorf(fmt, args...)\<close>, kept with its format string and its arguments, so that
  wrapping (\<^verbatim>\<open>%w\<close>, \<^verbatim>\<open>%v\<close>) stays visible.
\<close>

datatype error = Opaque string | Errorf string "fmtarg list"
and fmtarg = ArgByte byte | ArgErr error

text \<open>
  Modelled from the spec: the closed enumeration \<^verbatim>\<open>RequestReplyReason\<close> (its declaration is
  not part of \<^verbatim>\<open>connection.go\<close> and \<^verbatim>\<open>socks.go\<close>).
\<close>

datatype RequestReplyReason =
    RequestReplySucceeded
  | RequestReplyGeneralFailure
  | RequestReplyConnectionNotAllowed
  | RequestReplyNetworkUnreachable
  | RequestReplyHostUnreachable
  | RequestReplyConnectionRefused
  | RequestReplyTTLExpired
  | RequestReplyCommandNotSupported
  | RequestReplyAddressTypeNotSupported
  | RequestReplyMethodNotSupported

text \<open>The struct \<^verbatim>\<open>Error{Reason, Err}\<close> that crosses the handshake boundary.\<close>

record Error =
  Reason :: RequestReplyReason
  Err :: error

text \<open>
  Modelled from the spec: the protocol versions and the only negotiated method, with the
  byte values the spec gives for them (greeting version \<^verbatim>\<open>04\<close>, selection reply \<^verbatim>\<open>{5, 0}\<close>).
\<close>

definition Version4 :: byte where
  "Version4 = 4"

definition Version5 :: byte where
  "Version5 = 5"

definition MethodNoAuthRequired :: byte where
  "MethodNoAuthRequired = 0"

section \<open>Connections\<close>

text \<open>
  A connection is scripted: \<open>reads\<close> lists what the successive calls of \<^verbatim>\<open>conn.Read\<close> will do,
  \<open>writes\<close> what the successive calls of \<^verbatim>\<open>conn.Write\<close> will do. Time is counted in ticks
  from the start of a call of \<^verbatim>\<open>connectionRead\<close> or \<^verbatim>\<open>connectionWrite\<close>.

  \<^item> \<open>ReadReturns lat bs err\<close>: the call returns after \<open>lat\<close> ticks, having stored \<open>bs\<close> in the
    buffer (\<^verbatim>\<open>i = len(bs)\<close>, cut to the capacity of the buffer), with error \<open>err\<close>.
  \<^item> \<open>ReadBlocks\<close>: the call does not return. A script that has run out blocks as well.
  \<^item> \<open>WriteReturns lat n err\<close>: the call returns after \<open>lat\<close> ticks, having accepted the first
    \<open>n\<close> bytes of its argument (all of it when it is shorter), with error \<open>err\<close>.
  \<^item> \<open>WriteBlocks\<close>: the call does not return.

  \<open>sent\<close> is what the peer has received so far. \<open>writeCalls\<close> is an observation only: the
  buffers handed to \<^verbatim>\<open>connectionWrite\<close>, one entry per call.
\<close>

datatype read_call = ReadReturns nat "byte list" "error option" | ReadBlocks

datatype write_call = WriteReturns nat nat "error option" | WriteBlocks

record conn =
  reads :: "read_call list"
  writes :: "write_call list"
  sent :: "byte list"
  writeCalls :: "byte list list"
  closed :: bool

section \<open>Timeout-bounded I/O (connection.go)\<close>

definition bufLen :: nat where
  "bufLen = 1024"

definition timeoutReading :: error where
  "timeoutReading = Errorf ''timeout when reading on connection'' []"

definition timeoutWriting :: error where
  "timeoutWriting = Errorf ''timeout when writing to connection'' []"

text \<open>
  \<^verbatim>\<open>connectionRead\<close>: a background loop reads chunks of \<open>bufLen\<close> bytes into \<open>ret\<close> and sends
  on \<^verbatim>\<open>errChannel\<close> (a read error) or on \<^verbatim>\<open>readDone\<close> (a chunk shorter than \<open>bufLen\<close>); the
  caller selects on these two channels and on the deadline \<^verbatim>\<open>ctx2.Done()\<close>. The session
  context \<^verbatim>\<open>ctx\<close> is cancelled only by the deferred \<^verbatim>\<open>cancel\<close> of \<^verbatim>\<open>handle\<close>, after \<^verbatim>\<open>socks\<close>
  has returned, so inside a session \<^verbatim>\<open>ctx2\<close> is done exactly when \<open>timeout\<close> ticks have
  passed. The deadline fires at tick \<open>timeout\<close>: a call of \<^verbatim>\<open>Read\<close> that returns at a tick
  \<open>t + lat < timeout\<close> is seen by the select, one that returns at or after the deadline is
  not (the select has already returned the timeout error; with \<open>timeout = 0\<close> the context
  is done from the start).

  \<open>readLoop timeout t ret rs\<close> is the race from tick \<open>t\<close> on, with \<open>ret\<close> accumulated so far.
  It returns what the select returns and the part of the script not yet consumed; at a
  timeout the call in flight is still outstanding and stays in the script.
\<close>

fun readLoop :: "nat \<Rightarrow> nat \<Rightarrow> byte list \<Rightarrow> read_call list
    \<Rightarrow> (error + byte list) \<times> read_call list" where
  "readLoop timeout t ret [] = (Inl timeoutReading, [])"
| "readLoop timeout t ret (ReadBlocks # rs) = (Inl timeoutReading, ReadBlocks # rs)"
| "readLoop timeout t ret (ReadReturns lat bs err # rs) =
     (if timeout \<le> t + lat then (Inl timeoutReading, ReadReturns lat bs err # rs)
      else (case err of
          Some e \<Rightarrow> (Inl e, rs)
        | None \<Rightarrow>
            (let buf = take bufLen bs; i = length buf; ret' = ret @ buf
             in if i < bufLen then (Inr ret', rs)
                else readLoop timeout (t + lat) ret' rs)))"

definition connectionRead :: "conn \<Rightarrow> nat \<Rightarrow> (error + byte list) \<times> conn" where
  "connectionRead c timeout =
     (let (r, rs) = readLoop timeout 0 [] (reads c) in (r, c\<lparr>reads := rs\<rparr>))"

text \<open>
  \<^verbatim>\<open>connectionWrite\<close>: the background loop calls \<^verbatim>\<open>conn.Write(data)\<close> with the whole of
  \<open>data\<close> in every iteration and keeps the count \<open>toWriteLeft\<close>, a Go \<^verbatim>\<open>int\<close> (64 bits, its
  subtraction wraps). It sends on \<^verbatim>\<open>writeDone\<close> when a call returns \<open>written = toWriteLeft\<close>.
  \<open>writeLoop\<close> returns what the select returns, the rest of the script and the bytes the
  peer has received.
\<close>

fun writeLoop :: "nat \<Rightarrow> nat \<Rightarrow> byte list \<Rightarrow> 64 word \<Rightarrow> write_call list \<Rightarrow> byte list
    \<Rightarrow> error option \<times> write_call list \<times> byte list" where
  "writeLoop timeout t data toWriteLeft [] out = (Some timeoutWriting, [], out)"
| "writeLoop timeout t data toWriteLeft (WriteBlocks # ws) out =
     (Some timeoutWriting, WriteBlocks # ws, out)"
| "writeLoop timeout t data toWriteLeft (WriteReturns lat n err # ws) out =
     (if timeout \<le> t + lat then (Some timeoutWriting, WriteReturns lat n err # ws, out)
      else (let written = min n (length data); out' = out @ take written data
            in case err of
                Some e \<Rightarrow> (Some e, ws, out')
              | None \<Rightarrow>
                  if of_nat written = toWriteLeft then (None, ws, out')
                  else writeLoop timeout (t + lat) data (toWriteLeft - of_nat written) ws out'))"

definition connectionWrite :: "conn \<Rightarrow> byte list \<Rightarrow> nat \<Rightarrow> error option \<times> conn" where
  "connectionWrite c data timeout =
     (let (r, ws, out) = writeLoop timeout 0 data (of_nat (length data)) (writes c) (sent c)
      in (r, c\<lparr>writes := ws, sent := out, writeCalls := writeCalls c @ [data]\<rparr>))"

section \<open>Wire codec and collaborators\<close>

record Header =
  Version :: byte
  Methods :: "byte list"

text \<open>
  Modelled from the spec: the parsed \<^verbatim>\<open>Request\<close> (version, command, address type, raw
  destination address, port); its declaration is not part of the two source files.
\<close>

record Request =
  ReqVersion :: byte
  Command :: byte
  AddressType :: byte
  DestinationAddress :: "byte list"
  DestinationPort :: "16 word"

text \<open>A \<^verbatim>\<open>net.Addr\<close>: raw address bytes and a port.\<close>

type_synonym Addr = "byte list \<times> 16 word"

text \<open>
  The functions \<^verbatim>\<open>parseHeader\<close>, \<^verbatim>\<open>parseRequest\<close> and \<^verbatim>\<open>requestReply\<close> are called by
  \<^verbatim>\<open>socks.go\<close> but defined elsewhere; the session is modelled for any such functions, with
  the result types the call sites give them.
\<close>

record codec =
  parseHeader :: "byte list \<Rightarrow> error + Header"
  parseRequest :: "byte list \<Rightarrow> Error + Request"
  requestReply :: "Addr option \<Rightarrow> RequestReplyReason \<Rightarrow> error + byte list"

text \<open>
  The outward connection returned by \<^verbatim>\<open>PreHandler\<close>: either a \<^verbatim>\<open>net.Conn\<close>, which has a
  local address, or some other \<^verbatim>\<open>io.ReadWriteCloser\<close>.
\<close>

datatype remote = NetConn Addr | OtherConn

text \<open>
  The injected \<^verbatim>\<open>ProxyHandler\<close>. The engine only looks at what the calls return, so
  \<open>CopyFromClientToRemote\<close>, \<open>CopyFromRemoteToClient\<close> and \<open>Cleanup\<close> are given by the value
  their call returns in this session (\<open>None\<close> is \<^verbatim>\<open>nil\<close>); the bytes they relay are not
  modelled. \<^verbatim>\<open>Refresh\<close> returns nothing.
\<close>

record ProxyHandler =
  PreHandler :: "Request \<Rightarrow> Error + remote"
  CopyFromClientToRemote :: "error option"
  CopyFromRemoteToClient :: "error option"
  Cleanup :: "error option"

text \<open>The two directions of the relay.\<close>

datatype direction = ClientToRemote | RemoteToClient

text \<open>
  The \<^verbatim>\<open>Proxy\<close>, with the fields \<^verbatim>\<open>socks.go\<close> uses. \<open>Timeout\<close> is in ticks.
  Modelled from the spec: \<open>Done\<close>, the process-wide shutdown signal, which a session only
  reads. The channel \<^verbatim>\<open>p.Done\<close> is looked at in one place only, the select at the start of
  each copy activity; \<open>Done p d\<close> tells whether it is signalled when the activity of
  direction \<open>d\<close> gets there (the signal may come between the two).
\<close>

record Proxy =
  Proxyhandler :: ProxyHandler
  Timeout :: nat
  Done :: "direction \<Rightarrow> bool"

section \<open>Handshake and request (socks.go)\<close>

definition handleConnect :: "codec \<Rightarrow> Proxy \<Rightarrow> conn \<Rightarrow> Error option \<times> conn" where
  "handleConnect cd p c =
     (case connectionRead c (Timeout p) of
        (Inl err, c1) \<Rightarrow> (Some \<lparr>Reason = RequestReplyConnectionRefused, Err = err\<rparr>, c1)
      | (Inr buf, c1) \<Rightarrow>
          (case parseHeader cd buf of
             Inl err \<Rightarrow> (Some \<lparr>Reason = RequestReplyConnectionRefused, Err = err\<rparr>, c1)
           | Inr header \<Rightarrow>
               if Version header = Version4 then
                 (Some \<lparr>Reason = RequestReplyCommandNotSupported,
                        Err = Errorf ''socks4 not yet implemented'' []\<rparr>, c1)
               else if Version header \<noteq> Version5 then
                 (Some \<lparr>Reason = RequestReplyCommandNotSupported,
                        Err = Errorf ''version %#x not yet implemented''
                                [ArgByte (Version header)]\<rparr>, c1)
               else
                 (let methodSupported = list_ex (\<lambda>x. x = MethodNoAuthRequired) (Methods header)
                  in if \<not> methodSupported then
                       (Some \<lparr>Reason = RequestReplyMethodNotSupported,
                              Err = Errorf ''we currently only support no authentication'' []\<rparr>, c1)
                     else
                       (case connectionWrite c1 [Version5, MethodNoAuthRequired] (Timeout p) of
                          (Some err, c2) \<Rightarrow>
                            (Some \<lparr>Reason = RequestReplyGeneralFailure,
                                   Err = Errorf ''could not send connect reply: %w''
                                           [ArgErr err]\<rparr>, c2)
                        | (None, c2) \<Rightarrow> (None, c2)))))"

definition handleRequest :: "codec \<Rightarrow> Proxy \<Rightarrow> conn \<Rightarrow> (Error + Request) \<times> conn" where
  "handleRequest cd p c =
     (case connectionRead c (Timeout p) of
        (Inl err, c1) \<Rightarrow>
          (Inl \<lparr>Reason = RequestReplyGeneralFailure,
                Err = Errorf ''error on ConnectionRead: %w'' [ArgErr err]\<rparr>, c1)
      | (Inr buf, c1) \<Rightarrow>
          (case parseRequest cd buf of
             Inl err2 \<Rightarrow> (Inl err2, c1)
           | Inr request \<Rightarrow> (Inr request, c1)))"

definition handleRequestReply :: "codec \<Rightarrow> Proxy \<Rightarrow> conn \<Rightarrow> Addr option \<Rightarrow> Error option \<times> conn" where
  "handleRequestReply cd p c addr =
     (case requestReply cd addr RequestReplySucceeded of
        Inl err \<Rightarrow>
          (Some \<lparr>Reason = RequestReplyGeneralFailure,
                 Err = Errorf ''error on requestReply: %w'' [ArgErr err]\<rparr>, c)
      | Inr repl \<Rightarrow>
          (case connectionWrite c repl (Timeout p) of
             (Some err, c1) \<Rightarrow>
               (Some \<lparr>Reason = RequestReplyGeneralFailure,
                      Err = Errorf ''error on RequestResponse: %w'' [ArgErr err]\<rparr>, c1)
           | (None, c1) \<Rightarrow> (None, c1)))"

definition socksErrorReply :: "codec \<Rightarrow> Proxy \<Rightarrow> conn \<Rightarrow> RequestReplyReason \<Rightarrow> error option \<times> conn" where
  "socksErrorReply cd p c reason =
     (case requestReply cd None reason of
        Inl err \<Rightarrow> (Some err, c)
      | Inr repl \<Rightarrow> connectionWrite c repl (Timeout p))"

section \<open>Relay orchestrator (socks.go)\<close>

text \<open>
  What the session does besides reading from and writing to the client, in the order it
  happens: the collaborator calls, the start of the refresh activity, the cancellation of
  the relay scope \<^verbatim>\<open>ctx2\<close> and the deferred \<^verbatim>\<open>remote.Close\<close>.
\<close>

datatype event =
    CalledPreHandler
  | StartedRefresh
  | CalledCopyFromClientToRemote
  | CalledCopyFromRemoteToClient
  | CancelledScope
  | ClosedRemote
  | CalledCleanup

text \<open>
  The state the two copy activities share with \<^verbatim>\<open>socks\<close>: the two channels of capacity 1
  (the values sent and not yet received) and the events so far.
\<close>

record relay =
  errChannel1 :: "error option list"
  errChannel2 :: "error option list"
  events :: "event list"

text \<open>
  \<^verbatim>\<open>copyClientToRemote\<close>, started with \<^verbatim>\<open>errChannel1\<close>: the select on \<^verbatim>\<open>p.Done\<close> with a
  \<^verbatim>\<open>default\<close> branch, then exactly one value sent on the channel.
\<close>

definition copyClientToRemote :: "Proxy \<Rightarrow> relay \<Rightarrow> relay" where
  "copyClientToRemote p st =
     (if Done p ClientToRemote then st\<lparr>errChannel1 := errChannel1 st @ [None]\<rparr>
      else
        (let st1 = st\<lparr>events := events st @ [CalledCopyFromClientToRemote]\<rparr>
         in case CopyFromClientToRemote (Proxyhandler p) of
              Some err \<Rightarrow>
                st1\<lparr>errChannel1 := errChannel1 st1 @
                  [Some (Errorf ''error on copy from Client to Remote: %v'' [ArgErr err])]\<rparr>
            | None \<Rightarrow> st1\<lparr>errChannel1 := errChannel1 st1 @ [None]\<rparr>))"

definition copyRemoteToClient :: "Proxy \<Rightarrow> relay \<Rightarrow> relay" where
  "copyRemoteToClient p st =
     (if Done p RemoteToClient then st\<lparr>errChannel2 := errChannel2 st @ [None]\<rparr>
      else
        (let st1 = st\<lparr>events := events st @ [CalledCopyFromRemoteToClient]\<rparr>
         in case CopyFromRemoteToClient (Proxyhandler p) of
              Some err \<Rightarrow>
                st1\<lparr>errChannel2 := errChannel2 st1 @
                  [Some (Errorf ''error on copy from Remote to Client: %v'' [ArgErr err])]\<rparr>
            | None \<Rightarrow> st1\<lparr>errChannel2 := errChannel2 st1 @ [None]\<rparr>))"

text \<open>
  The two copy activities run concurrently; each works on its own channel, and
  \<^verbatim>\<open>wg.Wait()\<close> returns when both are over. A schedule says which of the two ran to its end
  first.
\<close>

datatype schedule = ClientToRemoteFirst | RemoteToClientFirst

definition runCopies :: "Proxy \<Rightarrow> schedule \<Rightarrow> relay \<Rightarrow> relay" where
  "runCopies p sched st =
     (case sched of
        ClientToRemoteFirst \<Rightarrow> copyRemoteToClient p (copyClientToRemote p st)
      | RemoteToClientFirst \<Rightarrow> copyClientToRemote p (copyRemoteToClient p st))"

text \<open>
  A receive \<^verbatim>\<open><-errChannel\<close>: the oldest value sent; on a channel that is empty (and closed by
  the copy activity's deferred \<^verbatim>\<open>close\<close>) the zero value \<^verbatim>\<open>nil\<close>.
\<close>

definition recv :: "error option list \<Rightarrow> error option" where
  "recv ch = (case ch of [] \<Rightarrow> None | x # _ \<Rightarrow> x)"

text \<open>
  Lines 77 to 100 of \<^verbatim>\<open>socks\<close>: start the three activities, wait, cancel, collect. The
  events of the three activities are recorded in one of the orders they can have among
  themselves; \<open>CancelledScope\<close> comes after the end of both copies in all of them.
\<close>

definition relayCopies :: "Proxy \<Rightarrow> schedule \<Rightarrow> Error option \<times> event list" where
  "relayCopies p sched =
     (let st0 = \<lparr>errChannel1 = [], errChannel2 = [], events = [StartedRefresh]\<rparr>;
          st = runCopies p sched st0;
          evs = events st @ [CancelledScope]
      in case recv (errChannel1 st) of
           Some err \<Rightarrow> (Some \<lparr>Reason = RequestReplyHostUnreachable, Err = err\<rparr>, evs)
         | None \<Rightarrow>
             (case recv (errChannel2 st) of
                Some err \<Rightarrow> (Some \<lparr>Reason = RequestReplyHostUnreachable, Err = err\<rparr>, evs)
              | None \<Rightarrow> (None, evs)))"

text \<open>
  \<^verbatim>\<open>socks\<close>. The deferred calls run at every return: \<^verbatim>\<open>remote.Close\<close> once the outward
  connection exists, and \<^verbatim>\<open>Cleanup\<close> always (its error is only logged).
\<close>

definition socks :: "codec \<Rightarrow> Proxy \<Rightarrow> schedule \<Rightarrow> conn \<Rightarrow> Error option \<times> conn \<times> event list" where
  "socks cd p sched c =
     (case handleConnect cd p c of
        (Some err, c1) \<Rightarrow> (Some err, c1, [CalledCleanup])
      | (None, c1) \<Rightarrow>
          (case handleRequest cd p c1 of
             (Inl err, c2) \<Rightarrow> (Some err, c2, [CalledCleanup])
           | (Inr request, c2) \<Rightarrow>
               (case PreHandler (Proxyhandler p) request of
                  Inl err \<Rightarrow> (Some err, c2, [CalledPreHandler, CalledCleanup])
                | Inr rem \<Rightarrow>
                    (let ip = (case rem of NetConn a \<Rightarrow> Some a | OtherConn \<Rightarrow> None)
                     in case handleRequestReply cd p c2 ip of
                          (Some err, c3) \<Rightarrow>
                            (Some err, c3, [CalledPreHandler, ClosedRemote, CalledCleanup])
                        | (None, c3) \<Rightarrow>
                            (let (r, evs) = relayCopies p sched
                             in (r, c3, [CalledPreHandler] @ evs @
                                   [ClosedRemote, CalledCleanup]))))))"

section \<open>Session entry point (socks.go)\<close>

definition handle :: "codec \<Rightarrow> Proxy \<Rightarrow> schedule \<Rightarrow> conn \<Rightarrow> conn \<times> event list" where
  "handle cd p sched c =
     (case socks cd p sched c of
        (None, c1, evs) \<Rightarrow> (c1\<lparr>closed := True\<rparr>, evs)
      | (Some err, c1, evs) \<Rightarrow>
          (case socksErrorReply cd p c1 (Reason err) of
             (_, c2) \<Rightarrow> (c2\<lparr>closed := True\<rparr>, evs)))"

section \<open>Notions used to state the properties\<close>

text \<open>
  A read that fills the whole buffer without an error (the loop goes on after it), the
  ticks a call takes, the bytes it stores, and their totals over a script.
\<close>

fun fullChunk :: "read_call \<Rightarrow> bool" where
  "fullChunk (ReadReturns lat bs err) = (err = None \<and> length bs = bufLen)"
| "fullChunk ReadBlocks = False"

fun latency :: "read_call \<Rightarrow> nat" where
  "latency (ReadReturns lat bs err) = lat"
| "latency ReadBlocks = 0"

fun bytesOf :: "read_call \<Rightarrow> byte list" where
  "bytesOf (ReadReturns lat bs err) = bs"
| "bytesOf ReadBlocks = []"

definition elapsed :: "read_call list \<Rightarrow> nat" where
  "elapsed rs = sum_list (map latency rs)"

definition delivered :: "read_call list \<Rightarrow> byte list" where
  "delivered rs = concat (map bytesOf rs)"

text \<open>
  The tick at which the background loop of \<^verbatim>\<open>connectionRead\<close>, left to itself from tick
  \<open>t\<close> on, sends on \<^verbatim>\<open>errChannel\<close> or \<^verbatim>\<open>readDone\<close> (its terminal event); \<open>None\<close> when it never
  does. \<open>writeTerminal\<close> is the same for the loop of \<^verbatim>\<open>connectionWrite\<close>.
\<close>

fun readTerminal :: "nat \<Rightarrow> read_call list \<Rightarrow> nat option" where
  "readTerminal t [] = None"
| "readTerminal t (ReadBlocks # rs) = None"
| "readTerminal t (ReadReturns lat bs err # rs) =
     (if err \<noteq> None \<or> length (take bufLen bs) < bufLen then Some (t + lat)
      else readTerminal (t + lat) rs)"

fun writeTerminal :: "nat \<Rightarrow> byte list \<Rightarrow> 64 word \<Rightarrow> write_call list \<Rightarrow> nat option" where
  "writeTerminal t data toWriteLeft [] = None"
| "writeTerminal t data toWriteLeft (WriteBlocks # ws) = None"
| "writeTerminal t data toWriteLeft (WriteReturns lat n err # ws) =
     (if err \<noteq> None \<or> of_nat (min n (length data)) = toWriteLeft then Some (t + lat)
      else writeTerminal (t + lat) data (toWriteLeft - of_nat (min n (length data))) ws)"

text \<open>The deadline \<open>timeout\<close> elapses before the terminal event at tick \<open>T\<close> (if any).\<close>

definition deadlineFirst :: "nat \<Rightarrow> nat option \<Rightarrow> bool" where
  "deadlineFirst timeout T = (case T of None \<Rightarrow> True | Some tt \<Rightarrow> timeout \<le> tt)"

text \<open>
  The session reaches the relay phase: the handshake, the request, the dial and the
  success reply all succeed, so that \<^verbatim>\<open>socks\<close> gets to line 77.
\<close>

definition reachesRelay :: "codec \<Rightarrow> Proxy \<Rightarrow> conn \<Rightarrow> bool" where
  "reachesRelay cd p c =
     (case handleConnect cd p c of
        (Some err, c1) \<Rightarrow> False
      | (None, c1) \<Rightarrow>
          (case handleRequest cd p c1 of
             (Inl err, c2) \<Rightarrow> False
           | (Inr request, c2) \<Rightarrow>
               (case PreHandler (Proxyhandler p) request of
                  Inl err \<Rightarrow> False
                | Inr rem \<Rightarrow>
                    (case handleRequestReply cd p c2
                            (case rem of NetConn a \<Rightarrow> Some a | OtherConn \<Rightarrow> None) of
                       (Some err, c3) \<Rightarrow> False
                     | (None, c3) \<Rightarrow> True))))"

section \<open>A concrete codec, proxy and clients\<close>

text \<open>
  Modelled from the spec: \<^verbatim>\<open>parseHeader\<close>, which is not in the two source files. It expects
  the version, the method count \<open>N\<close> and \<open>N\<close> method bytes; anything else fails.
\<close>

definition specParseHeader :: "byte list \<Rightarrow> error + Header" where
  "specParseHeader buf =
     (case buf of
        v # n # ms \<Rightarrow>
          if length ms = unat n then Inr \<lparr>Version = v, Methods = ms\<rparr>
          else Inl (Opaque ''malformed header'')
      | _ \<Rightarrow> Inl (Opaque ''header too short''))"

text \<open>
  Modelled from the spec: \<^verbatim>\<open>parseRequest\<close>, which is not in the two source files. Version,
  command, reserved byte, address type, then 4 bytes (IPv4, type 1), a length-prefixed
  name (type 3) or 16 bytes (IPv6, type 4), then the port, big-endian. An unknown address
  type fails as \<open>CommandNotSupported\<close>, a truncated buffer as \<open>GeneralFailure\<close>.
\<close>

definition portOf :: "byte \<Rightarrow> byte \<Rightarrow> 16 word" where
  "portOf hi lo = of_nat (unat hi * 256 + unat lo)"

definition specAddressLength :: "byte \<Rightarrow> byte list \<Rightarrow> nat option" where
  "specAddressLength atyp rest =
     (if atyp = 1 then Some 4
      else if atyp = 4 then Some 16
      else if atyp = 3 then (case rest of [] \<Rightarrow> Some 1 | l # _ \<Rightarrow> Some (1 + unat l))
      else None)"

definition specParseRequest :: "byte list \<Rightarrow> Error + Request" where
  "specParseRequest buf =
     (case buf of
        v # cmd # rsv # atyp # rest \<Rightarrow>
          (case specAddressLength atyp rest of
             None \<Rightarrow>
               Inl \<lparr>Reason = RequestReplyCommandNotSupported,
                     Err = Opaque ''unknown address type''\<rparr>
           | Some k \<Rightarrow>
               (case drop k rest of
                  [hi, lo] \<Rightarrow>
                    Inr \<lparr>ReqVersion = v, Command = cmd, AddressType = atyp,
                         DestinationAddress = take k rest, DestinationPort = portOf hi lo\<rparr>
                | _ \<Rightarrow>
                    Inl \<lparr>Reason = RequestReplyGeneralFailure,
                          Err = Opaque ''truncated request''\<rparr>))
      | _ \<Rightarrow> Inl \<lparr>Reason = RequestReplyGeneralFailure, Err = Opaque ''truncated request''\<rparr>)"

text \<open>
  Modelled from the spec: \<^verbatim>\<open>requestReply\<close>, which is not in the two source files. Version 5,
  the reason code, a reserved byte, the address type, the address and the port; without
  an address, a zero IPv4 address and port 0. The codes are those of RFC 1928; the spec
  gives no code for the engine's own \<open>MethodNotSupported\<close>, for which 255 stands here.
\<close>

fun reasonCode :: "RequestReplyReason \<Rightarrow> byte" where
  "reasonCode RequestReplySucceeded = 0"
| "reasonCode RequestReplyGeneralFailure = 1"
| "reasonCode RequestReplyConnectionNotAllowed = 2"
| "reasonCode RequestReplyNetworkUnreachable = 3"
| "reasonCode RequestReplyHostUnreachable = 4"
| "reasonCode RequestReplyConnectionRefused = 5"
| "reasonCode RequestReplyTTLExpired = 6"
| "reasonCode RequestReplyCommandNotSupported = 7"
| "reasonCode RequestReplyAddressTypeNotSupported = 8"
| "reasonCode RequestReplyMethodNotSupported = 255"

definition specRequestReply :: "Addr option \<Rightarrow> RequestReplyReason \<Rightarrow> error + byte list" where
  "specRequestReply addr reason =
     (case addr of
        None \<Rightarrow> Inr [5, reasonCode reason, 0, 1, 0, 0, 0, 0, 0, 0]
      | Some (ip, port) \<Rightarrow>
          if length ip = 4 \<or> length ip = 16 then
            Inr ([5, reasonCode reason, 0, if length ip = 4 then 1 else 4] @ ip @
                 [of_nat (unat port div 256), of_nat (unat port mod 256)])
          else Inl (Opaque ''unsupported bound address''))"

definition specCodec :: codec where
  "specCodec = \<lparr>parseHeader = specParseHeader, parseRequest = specParseRequest,
                requestReply = specRequestReply\<rparr>"

text \<open>
  A proxy whose dial succeeds with an outward connection that is not a \<^verbatim>\<open>net.Conn\<close>, and
  whose copy from the client to the remote ends with an error.
\<close>

definition exHandler :: ProxyHandler where
  "exHandler = \<lparr>PreHandler = (\<lambda>request. Inr OtherConn),
                CopyFromClientToRemote = Some (Opaque ''connection reset by peer''),
                CopyFromRemoteToClient = None,
                Cleanup = None\<rparr>"

definition exProxy :: Proxy where
  "exProxy = \<lparr>Proxyhandler = exHandler, Timeout = 10, Done = (\<lambda>d. False)\<rparr>"

text \<open>
  A client that sends the given greeting, then a connect request to 127.0.0.1:80, each
  in one read of one tick; its writes take everything offered at once.
\<close>

definition exClient :: "byte list \<Rightarrow> conn" where
  "exClient greeting =
     \<lparr>reads = [ReadReturns 1 greeting None,
               ReadReturns 1 [5, 1, 0, 1, 127, 0, 0, 1, 0, 80] None],
      writes = [WriteReturns 1 64 None, WriteReturns 1 64 None, WriteReturns 1 64 None],
      sent = [], writeCalls = [], closed = False\<rparr>"

text \<open>A connection with the given read and write scripts and nothing sent yet.\<close>

definition scripted :: "read_call list \<Rightarrow> write_call list \<Rightarrow> conn" where
  "scripted rs ws = \<lparr>reads = rs, writes = ws, sent = [], writeCalls = [], closed = False\<rparr>"

section \<open>Properties of the timeout-bounded I/O\<close>

subsection \<open>The two loops\<close>

lemma readLoop_deadline:
  "deadlineFirst timeout (readTerminal t rs) \<Longrightarrow> fst (readLoop timeout t ret rs) = Inl timeoutReading"
proof (induction timeout t ret rs rule: readLoop.induct)
  case (3 timeout t ret lat bs err rs)
  show ?case
  proof (cases "timeout \<le> t + lat")
    case True
    then show ?thesis by simp
  next
    case False
    with 3 show ?thesis
      by (cases err) (auto simp: deadlineFirst_def Let_def split: if_splits)
  qed
qed simp_all

lemma writeLoop_deadline:
  "deadlineFirst timeout (writeTerminal t data left ws)
    \<Longrightarrow> fst (writeLoop timeout t data left ws out) = Some timeoutWriting"
proof (induction timeout t data left ws out rule: writeLoop.induct)
  case (3 timeout t data toWriteLeft lat n err ws out)
  show ?case
  proof (cases "timeout \<le> t + lat")
    case True
    then show ?thesis by simp
  next
    case False
    with 3 show ?thesis
      by (cases err) (auto simp: deadlineFirst_def Let_def split: if_splits)
  qed
qed simp_all

lemma readLoop_fulls:
  "\<forall>r \<in> set pre. fullChunk r \<Longrightarrow> t + elapsed pre < timeout
    \<Longrightarrow> readLoop timeout t ret (pre @ rs) = readLoop timeout (t + elapsed pre) (ret @ delivered pre) rs"
proof (induction pre arbitrary: t ret)
  case Nil
  then show ?case by (simp add: elapsed_def delivered_def)
next
  case (Cons r pre)
  then obtain lat bs where r: "r = ReadReturns lat bs None" and len: "length bs = bufLen"
    by (cases r) auto
  from Cons.prems have "(t + lat) + elapsed pre < timeout"
    by (simp add: elapsed_def r)
  with Cons have "readLoop timeout (t + lat) (ret @ bs) (pre @ rs)
      = readLoop timeout (t + lat + elapsed pre) ((ret @ bs) @ delivered pre) rs"
    by simp
  moreover from Cons.prems have "\<not> timeout \<le> t + lat"
    by (simp add: elapsed_def r)
  ultimately show ?case
    using len by (simp add: r elapsed_def delivered_def Let_def add.assoc)
qed

lemma readTerminal_fulls:
  "\<forall>r \<in> set pre. fullChunk r \<Longrightarrow> readTerminal t (pre @ rs) = readTerminal (t + elapsed pre) rs"
proof (induction pre arbitrary: t)
  case Nil
  then show ?case by (simp add: elapsed_def)
next
  case (Cons r pre)
  then obtain lat bs where r: "r = ReadReturns lat bs None" and len: "length bs = bufLen"
    by (cases r) auto
  with Cons show ?case by (simp add: elapsed_def add.assoc)
qed

lemma fst_connectionRead: "fst (connectionRead c timeout) = fst (readLoop timeout 0 [] (reads c))"
  by (simp add: connectionRead_def split: prod.splits)

lemma fst_connectionWrite:
  "fst (connectionWrite c data timeout)
     = fst (writeLoop timeout 0 data (of_nat (length data)) (writes c) (sent c))"
  by (simp add: connectionWrite_def split: prod.splits)

subsection \<open>Short writes\<close>

text \<open>
  C2 (\<^verbatim>\<open>connectionWrite\<close> under short writes). The claim is that a connection whose \<^verbatim>\<open>Write\<close>
  accepts fewer bytes than offered, without an error, still receives exactly the bytes of
  \<open>data\<close>, in order, before success is reported. The code offers the whole of \<open>data\<close>
  again after a short write: with \<open>data = [1, 2, 3]\<close> and a connection that accepts 2 bytes,
  then 1 byte, the peer receives \<open>[1, 2, 1]\<close> and the call reports success.
\<close>

theorem short_write_resends_prefix:
  "connectionWrite (scripted [] [WriteReturns 0 2 None, WriteReturns 0 1 None]) [1, 2, 3] 1
     = (None, \<lparr>reads = [], writes = [], sent = [1, 2, 1], writeCalls = [[1, 2, 3]], closed = False\<rparr>)"
  by (simp add: scripted_def connectionWrite_def)

subsection \<open>Reading up to the first short chunk\<close>

text \<open>
  C3 (\<^verbatim>\<open>connectionRead\<close> on fragmented reads), as amended: when the reads of the connection
  are any number of reads that fill the 1024-byte buffer, without error, followed by one
  read of fewer than 1024 bytes without error, and that last read returns before the
  deadline, \<^verbatim>\<open>connectionRead\<close> returns exactly the bytes of these reads, once and in order,
  and leaves the later reads untouched.
\<close>

theorem read_returns_up_to_first_short_chunk:
  assumes "reads c = fulls @ ReadReturns lat bs None # rest"
    and "\<forall>r \<in> set fulls. fullChunk r"
    and "length bs < bufLen"
    and "elapsed fulls + lat < timeout"
  shows "connectionRead c timeout = (Inr (delivered fulls @ bs), c\<lparr>reads := rest\<rparr>)"
proof -
  from assms(4) have "0 + elapsed fulls < timeout" by simp
  from readLoop_fulls [OF assms(2) this, of "[]" "ReadReturns lat bs None # rest"] assms(3,4)
  show ?thesis
    by (simp add: connectionRead_def assms(1) Let_def)
qed

text \<open>
  The claim as stated, for arbitrary fragmentation, fails: a connection that delivers 3
  bytes in a read of 1 byte and a read of 2 bytes (no error, no timeout) makes
  \<^verbatim>\<open>connectionRead\<close> return the first byte only, since the first read is already short.
\<close>

theorem read_fragmented_counterexample:
  "delivered (reads (scripted [ReadReturns 0 [1] None, ReadReturns 0 [2, 3] None] [])) = [1, 2, 3]
   \<and> fst (connectionRead (scripted [ReadReturns 0 [1] None, ReadReturns 0 [2, 3] None] []) 1) = Inr [1]"
  by (simp add: scripted_def delivered_def connectionRead_def bufLen_def)

theorem read_returns_up_to_first_short_chunk_witness:
  "connectionRead (scripted [ReadReturns 1 (replicate 1024 7) None, ReadReturns 1 [1, 2] None, ReadReturns 0 [3] None] []) 5
     = (Inr (replicate 1024 7 @ [1, 2]), scripted [ReadReturns 0 [3] None] [])"
proof -
  let ?c = "scripted [ReadReturns 1 (replicate 1024 7) None, ReadReturns 1 [1, 2] None, ReadReturns 0 [3] None] []"
  have a: "reads ?c = [ReadReturns 1 (replicate 1024 7) None] @ ReadReturns 1 [1, 2] None # [ReadReturns 0 [3] None]"
    by (simp add: scripted_def)
  have b: "\<forall>r \<in> set [ReadReturns 1 (replicate 1024 7) None]. fullChunk r"
    by (simp add: bufLen_def)
  have c: "length [1 :: byte, 2] < bufLen"
    by (simp add: bufLen_def)
  have d: "elapsed [ReadReturns 1 (replicate 1024 7) None] + 1 < 5"
    by (simp add: elapsed_def)
  from read_returns_up_to_first_short_chunk [OF a b c d] show ?thesis
    by (simp add: delivered_def scripted_def)
qed

subsection \<open>Timeouts\<close>

text \<open>
  C4 (timeout before a terminal event): when the deadline elapses before the background
  loop reaches its terminal event (or the loop never reaches one), \<^verbatim>\<open>connectionRead\<close>
  returns the timeout error and no data, whatever it has accumulated, and
  \<^verbatim>\<open>connectionWrite\<close> returns the timeout error.
\<close>

theorem timeout_before_terminal_event:
  "(deadlineFirst timeout (readTerminal 0 (reads c))
      \<longrightarrow> fst (connectionRead c timeout) = Inl timeoutReading)
   \<and> (deadlineFirst timeout (writeTerminal 0 data (of_nat (length data)) (writes c))
      \<longrightarrow> fst (connectionWrite c data timeout) = Some timeoutWriting)"
  by (simp add: fst_connectionRead fst_connectionWrite readLoop_deadline writeLoop_deadline)

theorem timeout_before_terminal_event_witness:
  "deadlineFirst 5 (readTerminal 0 (reads (scripted [ReadReturns 1 (replicate 1024 9) None, ReadBlocks] [WriteReturns 1 1 None, WriteBlocks])))
   \<and> fst (connectionRead (scripted [ReadReturns 1 (replicate 1024 9) None, ReadBlocks] [WriteReturns 1 1 None, WriteBlocks]) 5) = Inl timeoutReading
   \<and> deadlineFirst 5 (writeTerminal 0 [5, 0] (of_nat (length [5 :: byte, 0])) (writes (scripted [ReadReturns 1 (replicate 1024 9) None, ReadBlocks] [WriteReturns 1 1 None, WriteBlocks])))
   \<and> fst (connectionWrite (scripted [ReadReturns 1 (replicate 1024 9) None, ReadBlocks] [WriteReturns 1 1 None, WriteBlocks]) [5, 0] 5) = Some timeoutWriting"
proof -
  let ?c = "scripted [ReadReturns 1 (replicate 1024 9) None, ReadBlocks] [WriteReturns 1 1 None, WriteBlocks]"
  have r: "deadlineFirst 5 (readTerminal 0 (reads ?c))"
    by (simp add: scripted_def deadlineFirst_def bufLen_def)
  have w: "deadlineFirst 5 (writeTerminal 0 [5, 0] (of_nat (length [5 :: byte, 0])) (writes ?c))"
    by (simp add: scripted_def deadlineFirst_def)
  from r w timeout_before_terminal_event [of 5 ?c "[5, 0]"] show ?thesis
    by blast
qed

subsection \<open>Read errors\<close>

text \<open>
  C10 (a read error discards what was accumulated): when \<^verbatim>\<open>Read\<close> returns an error after
  any number of full 1024-byte chunks, \<^verbatim>\<open>connectionRead\<close> returns that error and no data
  (the timeout error, and no data either, when the deadline elapsed first). A stream of
  \<open>k * 1024\<close> bytes followed by \<^verbatim>\<open>io.EOF\<close> is the case \<open>bs = []\<close>, \<open>e = Opaque ''EOF''\<close>.
\<close>

theorem read_error_discards_accumulated:
  assumes "reads c = fulls @ ReadReturns lat bs (Some e) # rest"
    and "\<forall>r \<in> set fulls. fullChunk r"
  shows "fst (connectionRead c timeout) =
     Inl (if elapsed fulls + lat < timeout then e else timeoutReading)"
proof (cases "elapsed fulls + lat < timeout")
  case True
  then have "0 + elapsed fulls < timeout" by simp
  from readLoop_fulls [OF assms(2) this, of "[]" "ReadReturns lat bs (Some e) # rest"] True
  show ?thesis
    by (simp add: fst_connectionRead assms(1))
next
  case False
  have "readTerminal 0 (reads c) = Some (elapsed fulls + lat)"
    by (simp add: assms(1) readTerminal_fulls [OF assms(2)])
  with False have "deadlineFirst timeout (readTerminal 0 (reads c))"
    by (simp add: deadlineFirst_def)
  then have "fst (readLoop timeout 0 [] (reads c)) = Inl timeoutReading"
    by (rule readLoop_deadline)
  with False show ?thesis
    by (simp add: fst_connectionRead)
qed

theorem read_error_discards_accumulated_witness:
  "fst (connectionRead (scripted [ReadReturns 1 (replicate 1024 7) None, ReadReturns 1 [] (Some (Opaque ''EOF''))] []) 5)
     = Inl (Opaque ''EOF'')"
proof -
  let ?c = "scripted [ReadReturns 1 (replicate 1024 7) None, ReadReturns 1 [] (Some (Opaque ''EOF''))] []"
  have a: "reads ?c = [ReadReturns 1 (replicate 1024 7) None] @ ReadReturns 1 [] (Some (Opaque ''EOF'')) # []"
    by (simp add: scripted_def)
  have b: "\<forall>r \<in> set [ReadReturns 1 (replicate 1024 7) None]. fullChunk r"
    by (simp add: bufLen_def)
  from read_error_discards_accumulated [OF a b, of 5] show ?thesis
    by (simp add: elapsed_def)
qed

section \<open>Properties of the session\<close>

subsection \<open>Auxiliary facts\<close>

lemmas session_defs =
  handle_def socks_def handleConnect_def handleRequest_def handleRequestReply_def
  socksErrorReply_def relayCopies_def runCopies_def copyClientToRemote_def
  copyRemoteToClient_def recv_def connectionRead_def connectionWrite_def reachesRelay_def

lemmas example_defs =
  specCodec_def specParseHeader_def specParseRequest_def specRequestReply_def
  specAddressLength_def portOf_def exProxy_def exHandler_def exClient_def scripted_def
  Version4_def Version5_def MethodNoAuthRequired_def bufLen_def

lemma connectionRead_keeps:
  "writes (snd (connectionRead c t)) = writes c"
  "sent (snd (connectionRead c t)) = sent c"
  "writeCalls (snd (connectionRead c t)) = writeCalls c"
  "closed (snd (connectionRead c t)) = closed c"
  by (simp_all add: connectionRead_def split: prod.splits)

lemma connectionWrite_keeps:
  "reads (snd (connectionWrite c d t)) = reads c"
  "writeCalls (snd (connectionWrite c d t)) = writeCalls c @ [d]"
  "closed (snd (connectionWrite c d t)) = closed c"
  by (simp_all add: connectionWrite_def split: prod.splits)

lemma socksErrorReply_reads: "reads (snd (socksErrorReply cd p c reason)) = reads c"
  by (simp add: socksErrorReply_def connectionWrite_keeps split: sum.splits)

lemma fst_handle:
  "fst (handle cd p sched c) =
     (case fst (socks cd p sched c) of
        None \<Rightarrow> (fst (snd (socks cd p sched c)))\<lparr>closed := True\<rparr>
      | Some err \<Rightarrow>
          (snd (socksErrorReply cd p (fst (snd (socks cd p sched c))) (Reason err)))
            \<lparr>closed := True\<rparr>)"
  by (simp add: handle_def split: prod.splits option.splits)

lemma handle_reads: "reads (fst (handle cd p sched c)) = reads (fst (snd (socks cd p sched c)))"
  by (simp add: fst_handle socksErrorReply_reads split: option.splits)

lemma connectionWrite_accepts_all:
  "writes c = WriteReturns lat n None # ws \<Longrightarrow> length data \<le> n \<Longrightarrow> lat < timeout \<Longrightarrow>
     connectionWrite c data timeout =
       (None, c\<lparr>writes := ws, sent := sent c @ data, writeCalls := writeCalls c @ [data]\<rparr>)"
  by (simp add: connectionWrite_def min_def)

lemma connectionRead_writeCallsD:
  "connectionRead c t = (r, c1) \<Longrightarrow> writeCalls c1 = writeCalls c"
  using connectionRead_keeps(3) [of c t] by simp

lemma connectionWrite_writeCallsD:
  "connectionWrite c d t = (r, c1) \<Longrightarrow> writeCalls c1 = writeCalls c @ [d]"
  using connectionWrite_keeps(2) [of c d t] by simp

lemma handleConnect_writeCalls:
  "writeCalls (snd (handleConnect cd p c)) = writeCalls c
   \<or> writeCalls (snd (handleConnect cd p c)) = writeCalls c @ [[5, 0]]"
  by (auto simp: handleConnect_def Let_def Version5_def MethodNoAuthRequired_def
        split: prod.splits sum.splits option.splits
        dest!: connectionRead_writeCallsD connectionWrite_writeCallsD)

lemma handleConnect_ok_writeCalls:
  "fst (handleConnect cd p c) = None
    \<Longrightarrow> writeCalls (snd (handleConnect cd p c)) = writeCalls c @ [[5, 0]]"
  by (auto simp: handleConnect_def Let_def Version5_def MethodNoAuthRequired_def
        split: prod.splits sum.splits option.splits if_splits
        dest!: connectionRead_writeCallsD connectionWrite_writeCallsD)

lemma handleRequest_writeCalls: "writeCalls (snd (handleRequest cd p c)) = writeCalls c"
  using connectionRead_keeps(3) [of c "Timeout p"]
  by (auto simp: handleRequest_def split: prod.splits sum.splits)

lemma handleRequestReply_writeCalls:
  "writeCalls (snd (handleRequestReply cd p c ip)) = writeCalls c
   \<or> (\<exists>succ. requestReply cd ip RequestReplySucceeded = Inr succ
         \<and> writeCalls (snd (handleRequestReply cd p c ip)) = writeCalls c @ [succ])"
proof (cases "requestReply cd ip RequestReplySucceeded")
  case (Inl e)
  then show ?thesis by (simp add: handleRequestReply_def)
next
  case (Inr succ)
  with connectionWrite_keeps(2) [of c succ "Timeout p"] show ?thesis
    by (auto simp: handleRequestReply_def split: prod.splits option.splits)
qed

lemma socks_writeCalls:
  "\<exists>ws. writeCalls (fst (snd (socks cd p sched c))) = writeCalls c @ ws
     \<and> (ws = [] \<or> ws = [[5, 0]]
        \<or> (\<exists>ip succ. requestReply cd ip RequestReplySucceeded = Inr succ
              \<and> ws = [[5, 0], succ]))"
proof (cases "handleConnect cd p c")
  case hc: (Pair r1 c1)
  show ?thesis
  proof (cases r1)
    case (Some err)
    with hc handleConnect_writeCalls [of cd p c] show ?thesis
      by (auto simp: socks_def)
  next
    case None
    with hc handleConnect_ok_writeCalls [of cd p c]
    have w1: "writeCalls c1 = writeCalls c @ [[5, 0]]" by simp
    show ?thesis
    proof (cases "handleRequest cd p c1")
      case hr: (Pair r2 c2)
      with handleRequest_writeCalls [of cd p c1] w1
      have w2: "writeCalls c2 = writeCalls c @ [[5, 0]]" by simp
      show ?thesis
      proof (cases r2)
        case (Inl err)
        with hc None hr w2 show ?thesis by (simp add: socks_def)
      next
        case (Inr request)
        show ?thesis
        proof (cases "PreHandler (Proxyhandler p) request")
          case (Inl err)
          with hc None hr Inr w2 show ?thesis by (simp add: socks_def)
        next
          case ph: (Inr rem)
          let ?ip = "case rem of NetConn a \<Rightarrow> Some a | OtherConn \<Rightarrow> None"
          have fin: "fst (snd (socks cd p sched c)) = snd (handleRequestReply cd p c2 ?ip)"
            using hc None hr Inr ph
            by (simp add: socks_def Let_def split: prod.splits option.splits)
          from handleRequestReply_writeCalls [of cd p c2 ?ip] w2 fin show ?thesis
            by auto
        qed
      qed
    qed
  qed
qed

lemma handle_writeCalls:
  "writeCalls (fst (handle cd p sched c)) =
     writeCalls (fst (snd (socks cd p sched c))) @
       (case fst (socks cd p sched c) of
          None \<Rightarrow> []
        | Some err \<Rightarrow>
            (case requestReply cd None (Reason err) of Inl e \<Rightarrow> [] | Inr repl \<Rightarrow> [repl]))"
  by (simp add: fst_handle socksErrorReply_def connectionWrite_keeps
        split: option.splits sum.splits)

lemma runCopies_channels:
  "errChannel1 (runCopies p sched st) = errChannel1 st @
     [if Done p ClientToRemote then None
      else map_option (\<lambda>e. Errorf ''error on copy from Client to Remote: %v'' [ArgErr e])
             (CopyFromClientToRemote (Proxyhandler p))]"
  "errChannel2 (runCopies p sched st) = errChannel2 st @
     [if Done p RemoteToClient then None
      else map_option (\<lambda>e. Errorf ''error on copy from Remote to Client: %v'' [ArgErr e])
             (CopyFromRemoteToClient (Proxyhandler p))]"
  by (cases sched;
      simp add: runCopies_def copyClientToRemote_def copyRemoteToClient_def Let_def
        split: option.splits)+

lemma relayCopies_result:
  "fst (relayCopies p sched) =
     (case (if Done p ClientToRemote then None
            else map_option (\<lambda>e. Errorf ''error on copy from Client to Remote: %v'' [ArgErr e])
                   (CopyFromClientToRemote (Proxyhandler p))) of
        Some err \<Rightarrow> Some \<lparr>Reason = RequestReplyHostUnreachable, Err = err\<rparr>
      | None \<Rightarrow>
          (case (if Done p RemoteToClient then None
                 else map_option
                        (\<lambda>e. Errorf ''error on copy from Remote to Client: %v'' [ArgErr e])
                        (CopyFromRemoteToClient (Proxyhandler p))) of
             Some err \<Rightarrow> Some \<lparr>Reason = RequestReplyHostUnreachable, Err = err\<rparr>
           | None \<Rightarrow> None))"
  by (simp add: relayCopies_def runCopies_channels recv_def Let_def split: option.splits)

lemma relayCopies_cancels: "CancelledScope \<in> set (snd (relayCopies p sched))"
  by (simp add: relayCopies_def Let_def split: option.splits)

lemma socks_reachesRelay:
  "reachesRelay cd p c \<Longrightarrow>
     fst (socks cd p sched c) = fst (relayCopies p sched) \<and>
     snd (snd (socks cd p sched c)) =
       [CalledPreHandler] @ snd (relayCopies p sched) @ [ClosedRemote, CalledCleanup]"
  by (auto simp: reachesRelay_def socks_def Let_def split: prod.splits option.splits sum.splits)

lemma socks_fails_before_relay: "\<not> reachesRelay cd p c \<Longrightarrow> fst (socks cd p sched c) \<noteq> None"
  by (auto simp: reachesRelay_def socks_def Let_def split: prod.splits option.splits sum.splits)

lemma socks_fails_iff:
  "(fst (socks cd p sched c) \<noteq> None) =
     (\<not> reachesRelay cd p c
      \<or> \<not> Done p ClientToRemote \<and> CopyFromClientToRemote (Proxyhandler p) \<noteq> None
      \<or> \<not> Done p RemoteToClient \<and> CopyFromRemoteToClient (Proxyhandler p) \<noteq> None)"
proof (cases "reachesRelay cd p c")
  case True
  then show ?thesis
    by (auto simp: socks_reachesRelay relayCopies_result split: option.splits if_splits)
next
  case False
  then show ?thesis
    by (simp add: socks_fails_before_relay)
qed

lemma ex_reaches: "reachesRelay specCodec exProxy (exClient [5, 1, 0])"
  by (simp add: session_defs example_defs Let_def)

subsection \<open>Version check\<close>

text \<open>
  C7 (version check): once the greeting has been read and parsed, a version other than 5
  makes \<^verbatim>\<open>handleConnect\<close> fail with reason \<open>CommandNotSupported\<close> and a cause that names
  the version (a fixed message for version 4, the version byte otherwise), whatever the
  methods are and with nothing written to the client; with version 5 the handshake goes
  past the check, so a failure it may still have is \<open>MethodNotSupported\<close> or
  \<open>GeneralFailure\<close>.
\<close>

theorem version_must_be_5:
  assumes "connectionRead c (Timeout p) = (Inr buf, c1)"
    and "parseHeader cd buf = Inr header"
  shows "(Version header \<noteq> Version5 \<longrightarrow>
            handleConnect cd p c =
              (Some \<lparr>Reason = RequestReplyCommandNotSupported,
                     Err = (if Version header = Version4
                            then Errorf ''socks4 not yet implemented'' []
                            else Errorf ''version %#x not yet implemented''
                                   [ArgByte (Version header)])\<rparr>, c1)
            \<and> writeCalls c1 = writeCalls c \<and> sent c1 = sent c)
       \<and> (Version header = Version5 \<longrightarrow>
            (\<forall>err. fst (handleConnect cd p c) = Some err \<longrightarrow>
               Reason err = RequestReplyMethodNotSupported \<or>
               Reason err = RequestReplyGeneralFailure))"
proof -
  have keep: "writeCalls c1 = writeCalls c \<and> sent c1 = sent c"
    using connectionRead_keeps(2,3) [of c "Timeout p"] assms(1) by simp
  have v45: "Version4 \<noteq> Version5"
    by (simp add: Version4_def Version5_def)
  show ?thesis
    using assms keep v45
    by (auto simp: handleConnect_def Let_def split: prod.splits option.splits)
qed

theorem version_must_be_5_witness:
  "handleConnect specCodec exProxy (exClient [4, 1, 0]) =
     (Some \<lparr>Reason = RequestReplyCommandNotSupported,
            Err = Errorf ''socks4 not yet implemented'' []\<rparr>,
      \<lparr>reads = [ReadReturns 1 [5, 1, 0, 1, 127, 0, 0, 1, 0, 80] None],
       writes = [WriteReturns 1 64 None, WriteReturns 1 64 None, WriteReturns 1 64 None],
       sent = [], writeCalls = [], closed = False\<rparr>)
   \<and> fst (handleConnect specCodec exProxy (exClient [6, 1, 0])) =
       Some \<lparr>Reason = RequestReplyCommandNotSupported,
             Err = Errorf ''version %#x not yet implemented'' [ArgByte 6]\<rparr>"
proof -
  let ?rest = "[ReadReturns 1 [5, 1, 0, 1, 127, 0, 0, 1, 0, 80] None]"
  let ?ws = "[WriteReturns 1 64 None, WriteReturns 1 64 None, WriteReturns 1 64 None]"
  let ?c1 = "\<lparr>reads = ?rest, writes = ?ws, sent = [], writeCalls = [], closed = False\<rparr>"
  have r1: "connectionRead (exClient [4, 1, 0]) (Timeout exProxy) = (Inr [4, 1, 0], ?c1)"
    by (simp add: connectionRead_def exClient_def exProxy_def bufLen_def)
  have p1: "parseHeader specCodec [4, 1, 0] = Inr \<lparr>Version = 4, Methods = [0]\<rparr>"
    by (simp add: specCodec_def specParseHeader_def)
  have r2: "connectionRead (exClient [6, 1, 0]) (Timeout exProxy) = (Inr [6, 1, 0], ?c1)"
    by (simp add: connectionRead_def exClient_def exProxy_def bufLen_def)
  have p2: "parseHeader specCodec [6, 1, 0] = Inr \<lparr>Version = 6, Methods = [0]\<rparr>"
    by (simp add: specCodec_def specParseHeader_def)
  from version_must_be_5 [OF r1 p1] version_must_be_5 [OF r2 p2]
  show ?thesis
    by (simp add: Version4_def Version5_def)
qed

subsection \<open>Method selection\<close>

text \<open>
  What \<^verbatim>\<open>handleConnect\<close> does with a parsed greeting of version 5. If the methods contain
  \<open>NoAuthenticationRequired\<close> it hands exactly one buffer, \<open>[5, 0]\<close>, to \<^verbatim>\<open>connectionWrite\<close>,
  succeeds when that call succeeds and fails with \<open>GeneralFailure\<close> when it fails; on a
  connection whose \<^verbatim>\<open>Write\<close> takes the two bytes in time the client receives exactly
  \<open>[5, 0]\<close>. If the methods do not contain it, \<^verbatim>\<open>handleConnect\<close> fails with
  \<open>MethodNotSupported\<close>, \<^verbatim>\<open>socks\<close> returns at once, and neither it nor \<^verbatim>\<open>handle\<close> reads from
  the client again.
\<close>

lemma handleConnect_version5:
  assumes "connectionRead c (Timeout p) = (Inr buf, c1)"
    and "parseHeader cd buf = Inr header"
    and "Version header = Version5"
  shows "(MethodNoAuthRequired \<in> set (Methods header) \<longrightarrow>
            handleConnect cd p c =
              (map_option
                 (\<lambda>err. \<lparr>Reason = RequestReplyGeneralFailure,
                          Err = Errorf ''could not send connect reply: %w'' [ArgErr err]\<rparr>)
                 (fst (connectionWrite c1 [5, 0] (Timeout p))),
               snd (connectionWrite c1 [5, 0] (Timeout p)))
            \<and> writeCalls (snd (handleConnect cd p c)) = writeCalls c @ [[5, 0]]
            \<and> (writes c = WriteReturns lat n None # ws \<and> 2 \<le> n \<and> lat < Timeout p \<longrightarrow>
                 handleConnect cd p c =
                   (None, c1\<lparr>writes := ws, sent := sent c @ [5, 0],
                              writeCalls := writeCalls c @ [[5, 0]]\<rparr>)))
       \<and> (MethodNoAuthRequired \<notin> set (Methods header) \<longrightarrow>
            handleConnect cd p c =
              (Some \<lparr>Reason = RequestReplyMethodNotSupported,
                     Err = Errorf ''we currently only support no authentication'' []\<rparr>, c1)
            \<and> socks cd p sched c =
              (Some \<lparr>Reason = RequestReplyMethodNotSupported,
                     Err = Errorf ''we currently only support no authentication'' []\<rparr>, c1,
               [CalledCleanup])
            \<and> reads (fst (handle cd p sched c)) = reads c1)"
proof -
  have v: "Version header \<noteq> Version4"
    using assms(3) by (simp add: Version4_def Version5_def)
  have ex: "list_ex (\<lambda>x. x = MethodNoAuthRequired) (Methods header)
      \<longleftrightarrow> MethodNoAuthRequired \<in> set (Methods header)"
    by (auto simp: list_ex_iff)
  have k: "writeCalls c1 = writeCalls c" "writes c1 = writes c" "sent c1 = sent c"
    using connectionRead_keeps(1,2,3) [of c "Timeout p"] assms(1) by simp_all
  have yes: "MethodNoAuthRequired \<in> set (Methods header) \<Longrightarrow>
      handleConnect cd p c =
        (map_option
           (\<lambda>err. \<lparr>Reason = RequestReplyGeneralFailure,
                    Err = Errorf ''could not send connect reply: %w'' [ArgErr err]\<rparr>)
           (fst (connectionWrite c1 [5, 0] (Timeout p))),
         snd (connectionWrite c1 [5, 0] (Timeout p)))"
    using assms v ex
    by (simp add: handleConnect_def Version5_def MethodNoAuthRequired_def
          split: prod.splits option.splits)
  have good: "writes c = WriteReturns lat n None # ws \<Longrightarrow> 2 \<le> n \<Longrightarrow> lat < Timeout p \<Longrightarrow>
      connectionWrite c1 [5, 0] (Timeout p) =
        (None, c1\<lparr>writes := ws, sent := sent c @ [5, 0],
                   writeCalls := writeCalls c @ [[5, 0]]\<rparr>)"
    using connectionWrite_accepts_all [of c1 lat n ws "[5, 0]" "Timeout p"] k by simp
  have no: "MethodNoAuthRequired \<notin> set (Methods header) \<Longrightarrow>
      handleConnect cd p c =
        (Some \<lparr>Reason = RequestReplyMethodNotSupported,
               Err = Errorf ''we currently only support no authentication'' []\<rparr>, c1)"
    using assms v ex by (simp add: handleConnect_def)
  show ?thesis
    using yes no k good handle_reads [of cd p sched c]
    by (auto simp: socks_def connectionWrite_keeps)
qed

lemma handleConnect_version5_example:
  "handleConnect specCodec exProxy (exClient [5, 2, 1, 0]) =
     (None, \<lparr>reads = [ReadReturns 1 [5, 1, 0, 1, 127, 0, 0, 1, 0, 80] None],
             writes = [WriteReturns 1 64 None, WriteReturns 1 64 None],
             sent = [5, 0], writeCalls = [[5, 0]], closed = False\<rparr>)
   \<and> socks specCodec exProxy ClientToRemoteFirst (exClient [5, 1, 2]) =
       (Some \<lparr>Reason = RequestReplyMethodNotSupported,
              Err = Errorf ''we currently only support no authentication'' []\<rparr>,
        \<lparr>reads = [ReadReturns 1 [5, 1, 0, 1, 127, 0, 0, 1, 0, 80] None],
         writes = [WriteReturns 1 64 None, WriteReturns 1 64 None, WriteReturns 1 64 None],
         sent = [], writeCalls = [], closed = False\<rparr>,
        [CalledCleanup])"
proof -
  let ?rest = "[ReadReturns 1 [5, 1, 0, 1, 127, 0, 0, 1, 0, 80] None]"
  let ?ws = "[WriteReturns 1 64 None, WriteReturns 1 64 None, WriteReturns 1 64 None]"
  let ?c1 = "\<lparr>reads = ?rest, writes = ?ws, sent = [], writeCalls = [], closed = False\<rparr>"
  have r1: "connectionRead (exClient [5, 2, 1, 0]) (Timeout exProxy) = (Inr [5, 2, 1, 0], ?c1)"
    by (simp add: connectionRead_def exClient_def exProxy_def bufLen_def)
  have p1: "parseHeader specCodec [5, 2, 1, 0] = Inr \<lparr>Version = 5, Methods = [1, 0]\<rparr>"
    by (simp add: specCodec_def specParseHeader_def)
  have r2: "connectionRead (exClient [5, 1, 2]) (Timeout exProxy) = (Inr [5, 1, 2], ?c1)"
    by (simp add: connectionRead_def exClient_def exProxy_def bufLen_def)
  have p2: "parseHeader specCodec [5, 1, 2] = Inr \<lparr>Version = 5, Methods = [2]\<rparr>"
    by (simp add: specCodec_def specParseHeader_def)
  have v1: "Version \<lparr>Version = 5, Methods = [1, 0]\<rparr> = Version5"
    and v2: "Version \<lparr>Version = 5, Methods = [2]\<rparr> = Version5"
    by (simp_all add: Version5_def)
  from handleConnect_version5 [OF r1 p1 v1, of 1 64 "[WriteReturns 1 64 None, WriteReturns 1 64 None]"
         ClientToRemoteFirst]
       handleConnect_version5 [OF r2 p2 v2, of 1 64 "[WriteReturns 1 64 None, WriteReturns 1 64 None]"
         ClientToRemoteFirst]
  show ?thesis
    by (simp add: MethodNoAuthRequired_def connectionWrite_def exProxy_def)
qed

text \<open>
  C6 (method selection). The claim is that for a greeting of version 5 that offers
  \<open>NoAuthenticationRequired\<close>, \<^verbatim>\<open>handleConnect\<close> writes exactly one 2-byte reply \<open>{5, 0}\<close> and
  succeeds. The reply goes through \<^verbatim>\<open>connectionWrite\<close>, which offers the whole buffer again
  after a short write: for the greeting \<open>05 01 00\<close> on a connection whose \<^verbatim>\<open>Write\<close> accepts
  one byte per call, without an error, the client receives \<open>[5, 5]\<close> and \<^verbatim>\<open>handleConnect\<close>
  reports success.
\<close>

theorem method_selection_short_write:
  "handleConnect specCodec exProxy
     (scripted [ReadReturns 1 [5, 1, 0] None] [WriteReturns 1 1 None, WriteReturns 1 1 None]) =
   (None, \<lparr>reads = [], writes = [], sent = [5, 5], writeCalls = [[5, 0]], closed = False\<rparr>)"
  by (simp add: session_defs example_defs)

subsection \<open>Read failures\<close>

text \<open>
  C9 (reason of a read failure): a failure of \<^verbatim>\<open>connectionRead\<close>, the timeout included,
  becomes \<open>ConnectionRefused\<close> in the greeting phase and \<open>GeneralFailure\<close> in the request
  phase, in \<^verbatim>\<open>handleConnect\<close> and \<^verbatim>\<open>handleRequest\<close> and in the \<^verbatim>\<open>socks\<close> that calls them. A failure is
  an \<open>Error\<close>, which has one \<open>Reason\<close>.
\<close>

theorem read_failure_reason_by_phase:
  "(fst (connectionRead c (Timeout p)) = Inl e \<longrightarrow>
      fst (handleConnect cd p c) = Some \<lparr>Reason = RequestReplyConnectionRefused, Err = e\<rparr>
      \<and> fst (socks cd p sched c) = Some \<lparr>Reason = RequestReplyConnectionRefused, Err = e\<rparr>)
   \<and> (fst (connectionRead c (Timeout p)) = Inl e \<longrightarrow>
      fst (handleRequest cd p c) =
        Inl \<lparr>Reason = RequestReplyGeneralFailure,
              Err = Errorf ''error on ConnectionRead: %w'' [ArgErr e]\<rparr>)
   \<and> (fst (handleConnect cd p c) = None
      \<and> fst (connectionRead (snd (handleConnect cd p c)) (Timeout p)) = Inl e \<longrightarrow>
      fst (socks cd p sched c) =
        Some \<lparr>Reason = RequestReplyGeneralFailure,
               Err = Errorf ''error on ConnectionRead: %w'' [ArgErr e]\<rparr>)"
  by (auto simp: handleConnect_def handleRequest_def socks_def split: prod.splits sum.splits)

theorem read_failure_reason_by_phase_witness:
  "fst (socks specCodec exProxy ClientToRemoteFirst (scripted [] [])) =
     Some \<lparr>Reason = RequestReplyConnectionRefused, Err = timeoutReading\<rparr>
   \<and> fst (socks specCodec exProxy ClientToRemoteFirst
        (scripted [ReadReturns 1 [5, 1, 0] None] [WriteReturns 1 2 None])) =
     Some \<lparr>Reason = RequestReplyGeneralFailure,
            Err = Errorf ''error on ConnectionRead: %w'' [ArgErr timeoutReading]\<rparr>"
proof -
  let ?c = "scripted [ReadReturns 1 [5, 1, 0] None] [WriteReturns 1 2 None]"
  have a: "fst (connectionRead (scripted [] []) (Timeout exProxy)) = Inl timeoutReading"
    by (simp add: connectionRead_def scripted_def)
  have b: "fst (handleConnect specCodec exProxy ?c) = None"
    by (simp add: session_defs example_defs)
  have c: "fst (connectionRead (snd (handleConnect specCodec exProxy ?c)) (Timeout exProxy))
      = Inl timeoutReading"
    by (simp add: session_defs example_defs)
  from a b c
    read_failure_reason_by_phase [of "scripted [] []" exProxy timeoutReading specCodec
      ClientToRemoteFirst]
    read_failure_reason_by_phase [of ?c exProxy timeoutReading specCodec ClientToRemoteFirst]
  show ?thesis
    by blast
qed

subsection \<open>The relay\<close>

text \<open>
  C1 (result of the relay): under either schedule each copy activity reports one outcome
  on its channel, \<open>o1\<close> and \<open>o2\<close>: \<^verbatim>\<open>nil\<close> when the shutdown signal was set at its start or
  the collaborator returned \<^verbatim>\<open>nil\<close>, and otherwise the collaborator's error wrapped with
  \<^verbatim>\<open>%v\<close>. In a session that has reached the relay phase, \<^verbatim>\<open>socks\<close> returns \<^verbatim>\<open>nil\<close> when both
  outcomes are \<^verbatim>\<open>nil\<close>, and an \<open>Error\<close> with reason \<open>HostUnreachable\<close> whose cause is the
  reported error when one of them is an error (the client-to-remote one when both are).
  The result is the same whichever activity finishes first, and the relay scope is
  cancelled before \<^verbatim>\<open>socks\<close> returns.
\<close>

theorem relay_result_from_copy_outcomes:
  "(let o1 = (if Done p ClientToRemote then None
              else map_option
                     (\<lambda>e. Errorf ''error on copy from Client to Remote: %v'' [ArgErr e])
                     (CopyFromClientToRemote (Proxyhandler p)));
        o2 = (if Done p RemoteToClient then None
              else map_option
                     (\<lambda>e. Errorf ''error on copy from Remote to Client: %v'' [ArgErr e])
                     (CopyFromRemoteToClient (Proxyhandler p)))
    in errChannel1 (runCopies p sched st) = errChannel1 st @ [o1]
       \<and> errChannel2 (runCopies p sched st) = errChannel2 st @ [o2]
       \<and> (reachesRelay cd p c \<longrightarrow>
            fst (socks cd p sched c) =
              (case o1 of
                 Some err \<Rightarrow> Some \<lparr>Reason = RequestReplyHostUnreachable, Err = err\<rparr>
               | None \<Rightarrow>
                   (case o2 of
                      Some err \<Rightarrow> Some \<lparr>Reason = RequestReplyHostUnreachable, Err = err\<rparr>
                    | None \<Rightarrow> None))
            \<and> fst (socks cd p ClientToRemoteFirst c) = fst (socks cd p RemoteToClientFirst c)
            \<and> CancelledScope \<in> set (snd (snd (socks cd p sched c)))))"
  unfolding Let_def
  by (simp add: runCopies_channels socks_reachesRelay relayCopies_result relayCopies_cancels)

theorem relay_result_from_copy_outcomes_witness:
  "reachesRelay specCodec exProxy (exClient [5, 1, 0])
   \<and> fst (socks specCodec exProxy RemoteToClientFirst (exClient [5, 1, 0])) =
       Some \<lparr>Reason = RequestReplyHostUnreachable,
             Err = Errorf ''error on copy from Client to Remote: %v'' [ArgErr (Opaque ''connection reset by peer'')]\<rparr>"
  using ex_reaches
    relay_result_from_copy_outcomes [of exProxy RemoteToClientFirst _ specCodec "exClient [5, 1, 0]"]
  by (simp add: exProxy_def exHandler_def Let_def)

text \<open>
  C8 (shutdown gate): when \<^verbatim>\<open>p.Done\<close> is signalled at the start of a copy activity, the
  activity sends \<^verbatim>\<open>nil\<close> on its channel and does not call the copy collaborator; when it
  is signalled at the start of both, both activities are no-ops and a session that has
  reached the relay phase ends in success, with no copy collaborator called. When it is
  not signalled at the start of an activity, the activity calls the collaborator, once;
  the gate is the select before that call and nothing looks at \<^verbatim>\<open>p.Done\<close> afterwards.
\<close>

theorem shutdown_gate:
  "(Done p ClientToRemote \<longrightarrow>
      copyClientToRemote p st = st\<lparr>errChannel1 := errChannel1 st @ [None]\<rparr>)
   \<and> (Done p RemoteToClient \<longrightarrow>
      copyRemoteToClient p st = st\<lparr>errChannel2 := errChannel2 st @ [None]\<rparr>)
   \<and> (Done p ClientToRemote \<and> Done p RemoteToClient \<longrightarrow>
      relayCopies p sched = (None, [StartedRefresh, CancelledScope])
      \<and> (reachesRelay cd p c \<longrightarrow>
           fst (socks cd p sched c) = None
           \<and> snd (snd (socks cd p sched c)) =
               [CalledPreHandler, StartedRefresh, CancelledScope, ClosedRemote, CalledCleanup]))
   \<and> (\<not> Done p ClientToRemote \<longrightarrow>
      events (copyClientToRemote p st) = events st @ [CalledCopyFromClientToRemote])
   \<and> (\<not> Done p RemoteToClient \<longrightarrow>
      events (copyRemoteToClient p st) = events st @ [CalledCopyFromRemoteToClient])"
proof -
  have r: "Done p ClientToRemote \<Longrightarrow> Done p RemoteToClient \<Longrightarrow>
      relayCopies p sched = (None, [StartedRefresh, CancelledScope])"
    by (cases sched)
       (simp_all add: relayCopies_def runCopies_def copyClientToRemote_def
          copyRemoteToClient_def recv_def)
  show ?thesis
    using r socks_reachesRelay [of cd p c sched]
    by (auto simp: copyClientToRemote_def copyRemoteToClient_def Let_def split: option.splits)
qed

theorem shutdown_gate_witness:
  "socks specCodec (exProxy\<lparr>Done := (\<lambda>d. True)\<rparr>) RemoteToClientFirst (exClient [5, 1, 0]) =
     (None,
      \<lparr>reads = [], writes = [WriteReturns 1 64 None],
       sent = [5, 0, 5, 0, 0, 1, 0, 0, 0, 0, 0, 0],
       writeCalls = [[5, 0], [5, 0, 0, 1, 0, 0, 0, 0, 0, 0]], closed = False\<rparr>,
      [CalledPreHandler, StartedRefresh, CancelledScope, ClosedRemote, CalledCleanup])"
proof -
  let ?p = "exProxy\<lparr>Done := (\<lambda>d. True)\<rparr>"
  let ?c = "exClient [5, 1, 0]"
  have d: "Done ?p ClientToRemote" "Done ?p RemoteToClient" by simp_all
  have r: "reachesRelay specCodec ?p ?c"
    by (simp add: session_defs example_defs Let_def)
  have s: "fst (snd (socks specCodec ?p RemoteToClientFirst ?c)) =
      \<lparr>reads = [], writes = [WriteReturns 1 64 None],
       sent = [5, 0, 5, 0, 0, 1, 0, 0, 0, 0, 0, 0],
       writeCalls = [[5, 0], [5, 0, 0, 1, 0, 0, 0, 0, 0, 0]], closed = False\<rparr>"
    by (simp add: session_defs example_defs Let_def)
  from d r shutdown_gate [of ?p _ RemoteToClientFirst specCodec ?c]
  have "fst (socks specCodec ?p RemoteToClientFirst ?c) = None
      \<and> snd (snd (socks specCodec ?p RemoteToClientFirst ?c)) =
          [CalledPreHandler, StartedRefresh, CancelledScope, ClosedRemote, CalledCleanup]"
    by blast
  with s show ?thesis
    by (metis prod.collapse)
qed

subsection \<open>Error replies\<close>

text \<open>
  C5 (error replies), as amended: \<^verbatim>\<open>handle\<close> attempts an error reply exactly when \<^verbatim>\<open>socks\<close>
  returns an \<open>Error\<close>, with that error's reason, and attempts one only; when \<^verbatim>\<open>socks\<close> returns
  \<^verbatim>\<open>nil\<close> nothing more is written. \<^verbatim>\<open>socks\<close> itself writes at most the selection reply and
  the success reply. \<^verbatim>\<open>socks\<close> returns an \<open>Error\<close> exactly when the session fails before the
  relay phase or a copy activity reports an error during it; a session that reaches the
  relay phase and has no copy error returns \<^verbatim>\<open>nil\<close>. A copy error has the reason
  \<open>HostUnreachable\<close>, and its error reply follows the success reply.
\<close>

theorem error_reply_when_socks_fails:
  "writeCalls (fst (handle cd p sched c)) =
     writeCalls (fst (snd (socks cd p sched c))) @
       (case fst (socks cd p sched c) of
          None \<Rightarrow> []
        | Some err \<Rightarrow>
            (case requestReply cd None (Reason err) of Inl e \<Rightarrow> [] | Inr repl \<Rightarrow> [repl]))
   \<and> (\<exists>ws. writeCalls (fst (snd (socks cd p sched c))) = writeCalls c @ ws
         \<and> (ws = [] \<or> ws = [[5, 0]]
            \<or> (\<exists>ip succ. requestReply cd ip RequestReplySucceeded = Inr succ
                  \<and> ws = [[5, 0], succ])))
   \<and> ((fst (socks cd p sched c) \<noteq> None) =
        (\<not> reachesRelay cd p c
         \<or> \<not> Done p ClientToRemote \<and> CopyFromClientToRemote (Proxyhandler p) \<noteq> None
         \<or> \<not> Done p RemoteToClient \<and> CopyFromRemoteToClient (Proxyhandler p) \<noteq> None))
   \<and> (reachesRelay cd p c
       \<and> (\<not> Done p ClientToRemote \<and> CopyFromClientToRemote (Proxyhandler p) \<noteq> None
          \<or> \<not> Done p RemoteToClient \<and> CopyFromRemoteToClient (Proxyhandler p) \<noteq> None) \<longrightarrow>
       (\<exists>err. fst (socks cd p sched c) = Some err
          \<and> Reason err = RequestReplyHostUnreachable))"
proof -
  have "reachesRelay cd p c \<Longrightarrow>
      \<not> Done p ClientToRemote \<and> CopyFromClientToRemote (Proxyhandler p) \<noteq> None
        \<or> \<not> Done p RemoteToClient \<and> CopyFromRemoteToClient (Proxyhandler p) \<noteq> None \<Longrightarrow>
      \<exists>err. fst (socks cd p sched c) = Some err \<and> Reason err = RequestReplyHostUnreachable"
    by (auto simp: socks_reachesRelay relayCopies_result split: option.splits)
  with handle_writeCalls [of cd p sched c] socks_writeCalls [of cd p sched c]
    socks_fails_iff [of cd p sched c]
  show ?thesis by blast
qed

theorem error_reply_when_socks_fails_witness:
  "\<not> reachesRelay specCodec exProxy (exClient [4, 1, 0])
   \<and> fst (socks specCodec exProxy ClientToRemoteFirst (exClient [4, 1, 0])) \<noteq> None
   \<and> writeCalls (fst (handle specCodec exProxy ClientToRemoteFirst (exClient [4, 1, 0])))
       = [[5, 7, 0, 1, 0, 0, 0, 0, 0, 0]]
   \<and> (\<exists>err. fst (socks specCodec exProxy ClientToRemoteFirst (exClient [5, 1, 0])) = Some err
         \<and> Reason err = RequestReplyHostUnreachable)
   \<and> reachesRelay specCodec (exProxy\<lparr>Done := (\<lambda>d. True)\<rparr>) (exClient [5, 1, 0])
   \<and> fst (socks specCodec (exProxy\<lparr>Done := (\<lambda>d. True)\<rparr>) ClientToRemoteFirst (exClient [5, 1, 0]))
       = None
   \<and> writeCalls (fst (handle specCodec (exProxy\<lparr>Done := (\<lambda>d. True)\<rparr>) ClientToRemoteFirst
        (exClient [5, 1, 0]))) = [[5, 0], [5, 0, 0, 1, 0, 0, 0, 0, 0, 0]]"
proof -
  let ?q = "exProxy\<lparr>Done := (\<lambda>d. True)\<rparr>"
  have n: "\<not> reachesRelay specCodec exProxy (exClient [4, 1, 0])"
    by (simp add: session_defs example_defs)
  have a: "socks specCodec exProxy ClientToRemoteFirst (exClient [4, 1, 0]) =
      (Some \<lparr>Reason = RequestReplyCommandNotSupported,
             Err = Errorf ''socks4 not yet implemented'' []\<rparr>,
       \<lparr>reads = [ReadReturns 1 [5, 1, 0, 1, 127, 0, 0, 1, 0, 80] None],
        writes = [WriteReturns 1 64 None, WriteReturns 1 64 None, WriteReturns 1 64 None],
        sent = [], writeCalls = [], closed = False\<rparr>, [CalledCleanup])"
    by (simp add: session_defs example_defs)
  have b: "reachesRelay specCodec exProxy (exClient [5, 1, 0])"
    by (simp add: session_defs example_defs Let_def)
  have c: "\<not> Done exProxy ClientToRemote" "CopyFromClientToRemote (Proxyhandler exProxy) \<noteq> None"
    by (simp_all add: exProxy_def exHandler_def)
  have d: "reachesRelay specCodec ?q (exClient [5, 1, 0])"
    by (simp add: session_defs example_defs Let_def)
  have e: "Done ?q ClientToRemote" "Done ?q RemoteToClient" by simp_all
  have f: "writeCalls (fst (snd (socks specCodec ?q ClientToRemoteFirst (exClient [5, 1, 0]))))
      = [[5, 0], [5, 0, 0, 1, 0, 0, 0, 0, 0, 0]]"
    by (simp add: session_defs example_defs Let_def)
  from n error_reply_when_socks_fails [of specCodec exProxy ClientToRemoteFirst "exClient [4, 1, 0]"]
  have 1: "fst (socks specCodec exProxy ClientToRemoteFirst (exClient [4, 1, 0])) \<noteq> None"
    by blast
  from a error_reply_when_socks_fails [of specCodec exProxy ClientToRemoteFirst "exClient [4, 1, 0]"]
  have 2: "writeCalls (fst (handle specCodec exProxy ClientToRemoteFirst (exClient [4, 1, 0])))
     = [[5, 7, 0, 1, 0, 0, 0, 0, 0, 0]]"
    by (simp add: specCodec_def specRequestReply_def)
  from b c
    error_reply_when_socks_fails [of specCodec exProxy ClientToRemoteFirst "exClient [5, 1, 0]"]
  have 3: "\<exists>err. fst (socks specCodec exProxy ClientToRemoteFirst (exClient [5, 1, 0])) = Some err
         \<and> Reason err = RequestReplyHostUnreachable"
    by blast
  from d e error_reply_when_socks_fails [of specCodec ?q ClientToRemoteFirst "exClient [5, 1, 0]"]
  have 4: "fst (socks specCodec ?q ClientToRemoteFirst (exClient [5, 1, 0])) = None"
    by blast
  from 4 f error_reply_when_socks_fails [of specCodec ?q ClientToRemoteFirst "exClient [5, 1, 0]"]
  have 5: "writeCalls (fst (handle specCodec ?q ClientToRemoteFirst (exClient [5, 1, 0])))
      = [[5, 0], [5, 0, 0, 1, 0, 0, 0, 0, 0, 0]]"
    by simp
  from n 1 2 3 d 4 5 show ?thesis by blast
qed

text \<open>
  The claim as stated (an error reply only for failures before the relay phase, and no
  reply frame after the success reply) fails: in a session that reaches the relay phase
  and whose client-to-remote copy ends with an error, the client receives the selection
  reply, the success reply and then an error reply with reason code 4.
\<close>

theorem error_reply_after_relay_counterexample:
  "reachesRelay specCodec exProxy (exClient [5, 1, 0])
   \<and> handle specCodec exProxy ClientToRemoteFirst (exClient [5, 1, 0]) =
       (\<lparr>reads = [], writes = [],
         sent = [5, 0, 5, 0, 0, 1, 0, 0, 0, 0, 0, 0, 5, 4, 0, 1, 0, 0, 0, 0, 0, 0],
         writeCalls = [[5, 0], [5, 0, 0, 1, 0, 0, 0, 0, 0, 0], [5, 4, 0, 1, 0, 0, 0, 0, 0, 0]],
         closed = True\<rparr>,
        [CalledPreHandler, StartedRefresh, CalledCopyFromClientToRemote,
         CalledCopyFromRemoteToClient, CancelledScope, ClosedRemote, CalledCleanup])"
  by (simp add: session_defs example_defs Let_def)

end
